theory Spec2Isabelle
  imports Complex_Main "HOL-Library.Word"
begin

unbundle bit_operations_syntax

section \<open>Data model of OpenTherm.cpp\<close>

text \<open>
  \<^verbatim>\<open>unsigned long\<close> is the 32-bit frame and clock type of the library, \<^verbatim>\<open>byte\<close> is 8 bits
  wide and \<^verbatim>\<open>uint16_t\<close> 16 bits.
\<close>

type_synonym ulong = "32 word"
type_synonym byte = "8 word"
type_synonym uint16 = "16 word"

text \<open>The protocol state \<^verbatim>\<open>OpenThermStatus\<close>, with the names the source uses.\<close>

datatype OpenThermStatus =
    NOT_INITIALIZED
  | READY
  | DELAY
  | REQUEST_SENDING
  | RESPONSE_WAITING
  | RESPONSE_START_BIT
  | RESPONSE_RECEIVING
  | RESPONSE_READY
  | RESPONSE_INVALID

datatype OpenThermResponseStatus = NONE | SUCCESS | INVALID | TIMEOUT

datatype OpenThermMessageType =
    READ_DATA
  | WRITE_DATA
  | INVALID_DATA
  | RESERVED
  | READ_ACK
  | WRITE_ACK
  | DATA_INVALID
  | UNKNOWN_DATA_ID

text \<open>
  Modelled from the spec: the numeric codes of \<^verbatim>\<open>OpenThermMessageType\<close>. The enumeration is
  declared in OpenTherm.h, which is not among the sources. The spec lists the eight kinds
  of the 3-bit field in this order, with READ_DATA as the code 0 and WRITE_DATA as bit 28
  alone, and says that all eight codes are defined.
\<close>

fun MessageType_code :: "OpenThermMessageType \<Rightarrow> nat" where
  "MessageType_code READ_DATA = 0"
| "MessageType_code WRITE_DATA = 1"
| "MessageType_code INVALID_DATA = 2"
| "MessageType_code RESERVED = 3"
| "MessageType_code READ_ACK = 4"
| "MessageType_code WRITE_ACK = 5"
| "MessageType_code DATA_INVALID = 6"
| "MessageType_code UNKNOWN_DATA_ID = 7"

text \<open>
  Modelled from the spec: \<^verbatim>\<open>static_cast<OpenThermMessageType>\<close> of a 3-bit value, the
  inverse of the codes above. The source only casts values masked with 7.
\<close>

definition MessageType_of :: "nat \<Rightarrow> OpenThermMessageType" where
  "MessageType_of n =
     (if n = 0 then READ_DATA
      else if n = 1 then WRITE_DATA
      else if n = 2 then INVALID_DATA
      else if n = 3 then RESERVED
      else if n = 4 then READ_ACK
      else if n = 5 then WRITE_ACK
      else if n = 6 then DATA_INVALID
      else UNKNOWN_DATA_ID)"

text \<open>
  Modelled from the spec: \<^verbatim>\<open>OpenThermMessageID\<close>, declared in OpenTherm.h, is the 8-bit
  data-point identifier (0 to 255) of the frame layout.
\<close>

type_synonym OpenThermMessageID = "8 word"

text \<open>The level of a line, as \<^verbatim>\<open>digitalRead\<close> returns it and \<^verbatim>\<open>digitalWrite\<close> takes it.\<close>

datatype level = LOW | HIGH

text \<open>
  The fields of the class \<^verbatim>\<open>OpenTherm\<close> that the protocol engine reads and writes.
  \<^item> \<open>processResponseCallback\<close> holds whether the registered pointer is not \<^verbatim>\<open>NULL\<close>;
  \<^item> \<open>responseBitIndex\<close> never leaves 0..32 once the receiver has been armed, so it is
    a natural number;
  \<^item> \<open>notified\<close> records every invocation of the completion callback with its two
    arguments, oldest first;
  \<^item> \<open>written\<close> records every level driven on the output pin, oldest first.
\<close>

record OpenTherm =
  status :: OpenThermStatus
  response :: ulong
  responseStatus :: OpenThermResponseStatus
  responseTimestamp :: ulong
  responseBitIndex :: nat
  processResponseCallback :: bool
  notified :: "(ulong \<times> OpenThermResponseStatus) list"
  written :: "level list"

section \<open>Frame codec\<close>

text \<open>
  \<^verbatim>\<open>parity\<close>: the loop counts the set bits of the frame in a byte, shifting the frame right
  until it is zero.
\<close>

function parity_loop :: "ulong \<Rightarrow> byte \<Rightarrow> byte" where
  "parity_loop frame p =
     (if frame > 0
      then parity_loop (drop_bit 1 frame) (if frame AND 1 \<noteq> 0 then p + 1 else p)
      else p)"
  by pat_completeness auto
termination
proof (relation "measure (\<lambda>(frame, p). unat frame)")
  show "wf (measure (\<lambda>(frame :: ulong, p :: byte). unat frame))"
    by simp
next
  fix frame :: ulong and p :: byte
  assume "0 < frame"
  then have "0 < unat frame"
    by (simp add: word_less_nat_alt)
  then have "unat frame div 2 < unat frame"
    by simp
  moreover have "unat (drop_bit 1 frame) = unat frame div 2"
    unfolding unat_drop_bit_eq by (simp add: drop_bit_eq_div)
  ultimately show "((drop_bit 1 frame, if frame AND 1 \<noteq> 0 then p + 1 else p), (frame, p))
      \<in> measure (\<lambda>(frame, p). unat frame)"
    by simp
qed

definition parity :: "ulong \<Rightarrow> bool" where
  "parity frame = (parity_loop frame 0 AND 1 \<noteq> 0)"

text \<open>
  \<^verbatim>\<open>buildRequest\<close>. The parameter \<^verbatim>\<open>unsigned int data\<close> is 16 bits wide on AVR and 32 bits
  wide on the ESP8266; \<open>data\<close> is its value after the conversion of the first statement,
  \<^verbatim>\<open>unsigned long request = data\<close>, so a 16-bit platform only ever passes values below
  65536.
\<close>

definition buildRequest :: "OpenThermMessageType \<Rightarrow> OpenThermMessageID \<Rightarrow> ulong \<Rightarrow> ulong" where
  "buildRequest type ident data =
     (let request = data;
          request = (if type = WRITE_DATA then request OR push_bit 28 1 else request);
          request = request OR push_bit 16 (ucast ident);
          request = (if parity request then request OR push_bit 31 1 else request)
      in request)"

definition isValidResponse :: "ulong \<Rightarrow> bool" where
  "isValidResponse resp =
     (if parity resp then False
      else (let msgType = (ucast (drop_bit 29 (push_bit 1 resp)) :: byte)
            in unat msgType = MessageType_code READ_ACK
               \<or> unat msgType = MessageType_code WRITE_ACK))"

definition getMessageType :: "ulong \<Rightarrow> OpenThermMessageType" where
  "getMessageType message = MessageType_of (unat (drop_bit 28 message AND 7))"

text \<open>
  \<^verbatim>\<open>buildSetBoilerStatusRequest\<close>. \<^verbatim>\<open>OpenThermMessageID::Status\<close> is declared in
  OpenTherm.h; its value is the parameter \<open>Status\<close>.
\<close>

definition buildSetBoilerStatusRequest ::
  "OpenThermMessageID \<Rightarrow> bool \<Rightarrow> bool \<Rightarrow> bool \<Rightarrow> bool \<Rightarrow> bool \<Rightarrow> ulong" where
  "buildSetBoilerStatusRequest Status enableCentralHeating enableHotWater enableCooling
       enableOutsideTemperatureCompensation enableCentralHeating2 =
     (let data = of_bool enableCentralHeating
                 OR push_bit 1 (of_bool enableHotWater)
                 OR push_bit 2 (of_bool enableCooling)
                 OR push_bit 3 (of_bool enableOutsideTemperatureCompensation)
                 OR push_bit 4 (of_bool enableCentralHeating2);
          data = push_bit 8 data
      in buildRequest READ_DATA Status data)"

text \<open>Parsing responses: a \<^verbatim>\<open>bool\<close> made from a masked frame is true when the mask hits a bit.\<close>

definition isFault :: "ulong \<Rightarrow> bool" where
  "isFault resp = (resp AND 0x1 \<noteq> 0)"

definition isCentralHeatingEnabled :: "ulong \<Rightarrow> bool" where
  "isCentralHeatingEnabled resp = (resp AND 0x2 \<noteq> 0)"

definition isHotWaterEnabled :: "ulong \<Rightarrow> bool" where
  "isHotWaterEnabled resp = (resp AND 0x4 \<noteq> 0)"

definition isFlameOn :: "ulong \<Rightarrow> bool" where
  "isFlameOn resp = (resp AND 0x8 \<noteq> 0)"

definition isCoolingEnabled :: "ulong \<Rightarrow> bool" where
  "isCoolingEnabled resp = (resp AND 0x10 \<noteq> 0)"

definition isDiagnostic :: "ulong \<Rightarrow> bool" where
  "isDiagnostic resp = (resp AND 0x40 \<noteq> 0)"

definition getUInt :: "ulong \<Rightarrow> uint16" where
  "getUInt resp = ucast (resp AND 0xffff)"

text \<open>
  \<^verbatim>\<open>getFloat\<close>: both quotients are a 17-bit integer over 256, which a \<^verbatim>\<open>float\<close> holds
  exactly, so the result is the real number itself.
\<close>

definition getFloat :: "ulong \<Rightarrow> real" where
  "getFloat resp =
     (let u88 = getUInt resp
      in if u88 AND 0x8000 \<noteq> 0
         then - (of_int (0x10000 - uint u88)) / 256
         else of_int (uint u88) / 256)"

definition getTemperature :: "ulong \<Rightarrow> real" where
  "getTemperature resp = (if isValidResponse resp then getFloat resp else 0)"

section \<open>Transmitter\<close>

definition setActiveState :: "OpenTherm \<Rightarrow> OpenTherm" where
  "setActiveState s = s\<lparr>written := written s @ [LOW]\<rparr>"

definition setIdleState :: "OpenTherm \<Rightarrow> OpenTherm" where
  "setIdleState s = s\<lparr>written := written s @ [HIGH]\<rparr>"

text \<open>\<^verbatim>\<open>sendBit\<close>: two half bits of 500 microseconds each.\<close>

definition sendBit :: "bool \<Rightarrow> OpenTherm \<Rightarrow> OpenTherm" where
  "sendBit high s =
     (let s = (if high then setActiveState s else setIdleState s)
      in if high then setIdleState s else setActiveState s)"

text \<open>The loop \<^verbatim>\<open>for (int i = 31; i >= 0; i--) sendBit(bitRead(request, i))\<close>.\<close>

fun sendBits :: "ulong \<Rightarrow> nat \<Rightarrow> OpenTherm \<Rightarrow> OpenTherm" where
  "sendBits request 0 s = s"
| "sendBits request (Suc i) s = sendBits request i (sendBit (bit request i) s)"

section \<open>Session controller and receive decoder\<close>

text \<open>
  The constructor. It does not initialise \<^verbatim>\<open>responseBitIndex\<close>, so the value found there
  is a parameter.
\<close>

definition OpenTherm_init :: "nat \<Rightarrow> OpenTherm" where
  "OpenTherm_init bitIndex =
     \<lparr>status = NOT_INITIALIZED, response = 0, responseStatus = NONE, responseTimestamp = 0,
      responseBitIndex = bitIndex, processResponseCallback = False, notified = [],
      written = []\<rparr>"

text \<open>\<^verbatim>\<open>activateBoiler\<close> drives the idle level and waits for one second.\<close>

definition activateBoiler :: "OpenTherm \<Rightarrow> OpenTherm" where
  "activateBoiler s = setIdleState s"

text \<open>
  \<^verbatim>\<open>begin\<close>; \<open>callback\<close> holds whether the completion callback passed is not \<^verbatim>\<open>NULL\<close>.
\<close>

definition beginOT :: "bool \<Rightarrow> OpenTherm \<Rightarrow> OpenTherm" where
  "beginOT callback s = (activateBoiler s)\<lparr>status := READY, processResponseCallback := callback\<rparr>"

definition isReady :: "OpenTherm \<Rightarrow> bool" where
  "isReady s = (status s = READY)"

text \<open>
  \<^verbatim>\<open>sendRequestAync\<close>; \<open>now\<close> is the value \<^verbatim>\<open>micros()\<close> returns after the transmission.
  The result is the returned flag and the object afterwards.
\<close>

definition sendRequestAync :: "ulong \<Rightarrow> ulong \<Rightarrow> OpenTherm \<Rightarrow> bool \<times> OpenTherm" where
  "sendRequestAync request now s =
     (let ready = isReady s
      in if \<not> ready then (False, s)
         else
           (let s = s\<lparr>status := REQUEST_SENDING, response := 0, responseStatus := NONE\<rparr>;
                s = sendBit True s;
                s = sendBits request 32 s;
                s = sendBit True s;
                s = setIdleState s;
                s = s\<lparr>status := RESPONSE_WAITING, responseTimestamp := now\<rparr>
            in (True, s)))"

text \<open>
  \<^verbatim>\<open>handleInterrupt\<close>; \<open>newTs\<close> is the value of \<^verbatim>\<open>micros()\<close> and \<open>line\<close> the level
  \<^verbatim>\<open>readState()\<close> returns during the call. The operations are steps of one sequence:
  an edge is handled before or after a call of \<^verbatim>\<open>process\<close> or \<^verbatim>\<open>sendRequestAync\<close>, not
  inside it.
\<close>

definition handleInterrupt :: "ulong \<Rightarrow> level \<Rightarrow> OpenTherm \<Rightarrow> OpenTherm" where
  "handleInterrupt newTs line s =
     (if isReady s then s
      else if status s = RESPONSE_WAITING then
        (if line = HIGH
         then s\<lparr>status := RESPONSE_START_BIT, responseTimestamp := newTs\<rparr>
         else s\<lparr>status := RESPONSE_INVALID, responseTimestamp := newTs\<rparr>)
      else if status s = RESPONSE_START_BIT then
        (if newTs - responseTimestamp s < 750 \<and> line = LOW
         then s\<lparr>status := RESPONSE_RECEIVING, responseTimestamp := newTs,
                 responseBitIndex := 0\<rparr>
         else s\<lparr>status := RESPONSE_INVALID, responseTimestamp := newTs\<rparr>)
      else if status s = RESPONSE_RECEIVING then
        (if newTs - responseTimestamp s > 750 then
           (if responseBitIndex s < 32
            then s\<lparr>response := push_bit 1 (response s) OR (if line = LOW then 1 else 0),
                    responseTimestamp := newTs,
                    responseBitIndex := responseBitIndex s + 1\<rparr>
            else s\<lparr>status := RESPONSE_READY, responseTimestamp := newTs\<rparr>)
         else s)
      else s)"

text \<open>The guarded call \<^verbatim>\<open>if (processResponseCallback != NULL) processResponseCallback(...)\<close>.\<close>

definition callProcessResponseCallback :: "OpenTherm \<Rightarrow> OpenTherm" where
  "callProcessResponseCallback s =
     (if processResponseCallback s
      then s\<lparr>notified := notified s @ [(response s, responseStatus s)]\<rparr>
      else s)"

text \<open>\<^verbatim>\<open>process\<close>; \<open>newTs\<close> is the value of \<^verbatim>\<open>micros()\<close> during the call.\<close>

definition process :: "ulong \<Rightarrow> OpenTherm \<Rightarrow> OpenTherm" where
  "process newTs s =
     (let st = status s; ts = responseTimestamp s
      in if st = READY then s
         else if st \<noteq> NOT_INITIALIZED \<and> newTs - ts > 800000 then
           (callProcessResponseCallback (s\<lparr>responseStatus := TIMEOUT\<rparr>))\<lparr>status := READY\<rparr>
         else if st = RESPONSE_INVALID then
           (callProcessResponseCallback (s\<lparr>responseStatus := INVALID\<rparr>))\<lparr>status := DELAY\<rparr>
         else if st = RESPONSE_READY then
           (callProcessResponseCallback
              (s\<lparr>responseStatus := (if isValidResponse (response s) then SUCCESS else INVALID)\<rparr>))
            \<lparr>status := DELAY\<rparr>
         else if st = DELAY then
           (if newTs - ts > 100000 then s\<lparr>status := READY\<rparr> else s)
         else s)"

text \<open>
  \<^verbatim>\<open>sendRequest\<close>. What happens during the loop \<^verbatim>\<open>while (!isReady()) { process(); yield(); }\<close>
  is given by a script: one entry for each round, with the edges delivered to
  \<^verbatim>\<open>handleInterrupt\<close> before the round's call of \<^verbatim>\<open>process\<close> and the clock value of that
  call. The result is \<open>None\<close> when the script ends before the session is ready again.
\<close>

type_synonym round = "(ulong \<times> level) list \<times> ulong"

fun deliver :: "(ulong \<times> level) list \<Rightarrow> OpenTherm \<Rightarrow> OpenTherm" where
  "deliver [] s = s"
| "deliver ((t, l) # es) s = deliver es (handleInterrupt t l s)"

fun waitReady :: "round list \<Rightarrow> OpenTherm \<Rightarrow> OpenTherm option" where
  "waitReady rs s =
     (if isReady s then Some s
      else (case rs of
              [] \<Rightarrow> None
            | (es, t) # rs' \<Rightarrow> waitReady rs' (process t (deliver es s))))"

definition sendRequest :: "ulong \<Rightarrow> ulong \<Rightarrow> round list \<Rightarrow> OpenTherm \<Rightarrow> (ulong \<times> OpenTherm) option" where
  "sendRequest request now rs s =
     (case sendRequestAync request now s of
        (False, s') \<Rightarrow> Some (0, s')
      | (True, s') \<Rightarrow>
          (case waitReady rs s' of
             None \<Rightarrow> None
           | Some s'' \<Rightarrow> Some (response s'', s'')))"

section \<open>Notions of the specification\<close>

text \<open>The population count of a frame: how many of its 32 bits are set.\<close>

definition pop_count :: "ulong \<Rightarrow> nat" where
  "pop_count w = length (filter (bit w) [0..<32])"

text \<open>The message kind of a frame as a number: bits 28 to 30.\<close>

definition kind_field :: "ulong \<Rightarrow> nat" where
  "kind_field f = unat (take_bit 3 (drop_bit 28 f))"

text \<open>
  The request of \<^verbatim>\<open>buildRequest\<close> before its parity bit is set: the payload, the bit of
  WRITE_DATA and the identifier.
\<close>

definition request_fields :: "OpenThermMessageType \<Rightarrow> OpenThermMessageID \<Rightarrow> ulong \<Rightarrow> ulong" where
  "request_fields type ident data =
     (if type = WRITE_DATA then data OR push_bit 28 1 else data) OR push_bit 16 (ucast ident)"

text \<open>The two half-bit levels \<^verbatim>\<open>sendBit\<close> drives, and those of the lowest \<open>n\<close> bits of a frame.\<close>

definition bit_levels :: "bool \<Rightarrow> level list" where
  "bit_levels high = (if high then [LOW, HIGH] else [HIGH, LOW])"

definition frame_levels :: "ulong \<Rightarrow> nat \<Rightarrow> level list" where
  "frame_levels request n = concat (map (\<lambda>i. bit_levels (bit request i)) (rev [0..<n]))"

section \<open>A reference exchange\<close>

text \<open>
  The states of one exchange, each reached by the operations above from the constructor:
  the engine is started with a completion handler and a request is sent at time 0; the
  slave answers with a start bit (edges at 100 and 600 microseconds), then with one
  sampled edge for each bit of a frame, 1000 microseconds apart and most significant bit
  first (a set bit reads as the level \<open>LOW\<close>), then with the stop bit. The frame is the
  read acknowledgment \<^verbatim>\<open>0xC0002A80\<close>, whose payload is 42.5 in fixed point.
\<close>

definition exchange_started :: OpenTherm where
  "exchange_started = snd (sendRequestAync 0x80190000 0 (beginOT True (OpenTherm_init 0)))"

definition receiving_started :: OpenTherm where
  "receiving_started = handleInterrupt 600 LOW (handleInterrupt 100 HIGH exchange_started)"

definition frame_edges :: "ulong \<Rightarrow> ulong \<Rightarrow> (ulong \<times> level) list" where
  "frame_edges t0 frame =
     map (\<lambda>k. (t0 + 1000 * of_nat (Suc k), if bit frame (31 - k) then LOW else HIGH)) [0..<32]"

definition frame_received :: OpenTherm where
  "frame_received = deliver (frame_edges 600 0xC0002A80) receiving_started"

definition frame_ready :: OpenTherm where
  "frame_ready = handleInterrupt 33600 HIGH frame_received"

section \<open>Parity is the population count modulo two\<close>

lemma upt_0_Suc_Cons: "[0..<Suc n] = 0 # map Suc [0..<n]"
  by (subst upt_rec) (simp only: map_Suc_upt zero_less_Suc if_True)

lemma upt32_Cons: "[0..<32] = 0 # map Suc [0..<31]"
proof -
  have h: "(32::nat) = Suc 31" by simp
  show ?thesis by (subst h) (rule upt_0_Suc_Cons)
qed

lemma upt32_snoc: "[0..<32] = [0..<31] @ [31]"
proof -
  have h: "(32::nat) = Suc 31" by simp
  show ?thesis by (subst h) (simp only: upt_Suc_append le0)
qed

lemma pop_count_step:
  "pop_count w = of_bool (bit w 0) + pop_count (drop_bit 1 w)"
proof -
  have a: "pop_count w = of_bool (bit w 0) + length (filter (\<lambda>i. bit w (Suc i)) [0..<31])"
    unfolding pop_count_def upt32_Cons by (simp add: filter_map comp_def)
  have "\<not> bit w 32"
    using bit_imp_le_length [of w 32] by auto
  then have b: "pop_count (drop_bit 1 w) = length (filter (\<lambda>i. bit w (Suc i)) [0..<31])"
    unfolding pop_count_def upt32_snoc by (simp add: bit_drop_bit_eq comp_def)
  show ?thesis using a b by simp
qed

lemma pop_count_0: "pop_count 0 = 0"
  by (simp add: pop_count_def)

lemma parity_loop_eq: "parity_loop frame p = p + of_nat (pop_count frame)"
proof (induction frame p rule: parity_loop.induct)
  case (1 frame p)
  show ?case
  proof (cases "frame > 0")
    case True
    have c: "(frame AND 1 \<noteq> 0) = bit frame 0"
      using bit_iff_and_push_bit_not_eq_0 [of frame 0] by simp
    have "parity_loop frame p = parity_loop (drop_bit 1 frame) (if frame AND 1 \<noteq> 0 then p + 1 else p)"
      using True by (subst parity_loop.simps) simp
    also have "\<dots> = (if frame AND 1 \<noteq> 0 then p + 1 else p) + of_nat (pop_count (drop_bit 1 frame))"
      using "1.IH" [OF True] .
    also have "\<dots> = p + of_nat (pop_count frame)"
      unfolding c by (subst (2) pop_count_step) simp
    finally show ?thesis .
  next
    case False
    then have "frame = 0" by (simp add: word_gt_0)
    then show ?thesis
      by (subst parity_loop.simps) (simp add: pop_count_0)
  qed
qed

lemma parity_pop_count: "parity frame = odd (pop_count frame)"
proof -
  have "parity frame = bit (of_nat (pop_count frame) :: byte) 0"
    unfolding parity_def parity_loop_eq
    using bit_iff_and_push_bit_not_eq_0 [of "of_nat (pop_count frame) :: byte" 0] by simp
  also have "\<dots> = odd (pop_count frame)"
    by (simp add: bit_0)
  finally show ?thesis .
qed

lemma pop_count_snoc:
  "pop_count w = length (filter (bit w) [0..<31]) + of_bool (bit w 31)"
  unfolding pop_count_def upt32_snoc by simp

lemma bit_int31: "bit (0x80000000 :: int) n = (n = 31)"
proof -
  have "(0x80000000 :: int) = 2 ^ 31" by simp
  then show ?thesis by (simp only: bit_exp_iff) auto
qed

lemma bit_int28: "bit (0x10000000 :: int) n = (n = 28)"
proof -
  have "(0x10000000 :: int) = 2 ^ 28" by simp
  then show ?thesis by (simp only: bit_exp_iff) auto
qed

lemma bit_push31: "bit (0x80000000 :: ulong) n = (n = 31)"
  by (auto simp: bit_int31)

lemma bit_push28: "bit (0x10000000 :: ulong) n = (n = 28)"
  by (auto simp: bit_int28)

lemma pop_count_set31:
  assumes "\<not> bit w 31"
  shows "pop_count (w OR push_bit 31 1) = Suc (pop_count w)"
proof -
  have b: "bit (w OR push_bit 31 1) n = (bit w n \<or> n = 31)" for n
    by (auto simp: bit_or_iff bit_int31)
  have "filter (bit (w OR push_bit 31 1)) [0..<31] = filter (bit w) [0..<31]"
    by (rule filter_cong) (auto simp: bit_or_iff bit_xor_iff bit_int31)
  then show ?thesis
    using assms by (simp add: pop_count_snoc bit_or_iff bit_xor_iff bit_int31)
qed

lemma pop_count_flip31:
  "odd (pop_count (w XOR push_bit 31 1)) = even (pop_count w)"
proof -
  have b: "bit (w XOR push_bit 31 1) n = (bit w n \<noteq> (n = 31))" for n
    by (auto simp: bit_xor_iff bit_int31)
  have "filter (bit (w XOR push_bit 31 1)) [0..<31] = filter (bit w) [0..<31]"
    by (rule filter_cong) (auto simp: bit_or_iff bit_xor_iff bit_int31)
  then show ?thesis
    by (simp add: pop_count_snoc bit_or_iff bit_xor_iff bit_int31)
qed

lemma pop_count_clear31:
  "pop_count (w AND 0x7FFFFFFF) = length (filter (bit w) [0..<31])"
proof -
  have m: "(0x7FFFFFFF :: ulong) = mask 31" by (simp add: mask_eq_exp_minus_1)
  have "filter (bit (w AND mask 31)) [0..<31] = filter (bit w) [0..<31]"
    by (rule filter_cong) (auto simp: bit_and_iff bit_mask_iff)
  moreover have "\<not> bit (w AND mask 31) 31"
    by (simp add: bit_and_iff bit_mask_iff)
  ultimately show ?thesis
    unfolding m by (simp add: pop_count_snoc)
qed

lemma small_bits:
  fixes data :: ulong
  assumes "data < 2 ^ k" "bit data n"
  shows "n < k"
proof -
  have "data AND mask k = data"
    using assms(1) by (rule less_mask_eq)
  then have "bit (data AND mask k) n" using assms(2) by simp
  then show ?thesis by (simp add: bit_and_iff bit_mask_iff)
qed

lemma buildRequest_fields:
  "buildRequest type ident data =
     (if parity (request_fields type ident data)
      then request_fields type ident data OR push_bit 31 1
      else request_fields type ident data)"
  by (simp add: buildRequest_def request_fields_def Let_def)

lemma bit_ident_field:
  "bit (push_bit 16 (ucast (ident :: OpenThermMessageID)) :: ulong) n =
     (16 \<le> n \<and> n < 24 \<and> bit ident (n - 16))"
  by (auto simp: bit_push_bit_iff bit_ucast_iff dest: bit_imp_le_length)

lemma bit_request_fields:
  "bit (request_fields type ident data) n =
     (bit data n \<or> (type = WRITE_DATA \<and> n = 28) \<or> (16 \<le> n \<and> n < 24 \<and> bit ident (n - 16)))"
  unfolding request_fields_def bit_or_iff bit_ident_field
  by (auto simp: bit_or_iff bit_int28)

lemma bit_buildRequest:
  "bit (buildRequest type ident data) n =
     (bit (request_fields type ident data) n
      \<or> (n = 31 \<and> parity (request_fields type ident data)))"
  unfolding buildRequest_fields
  by (auto simp: bit_or_iff bit_int31)

section \<open>Valid responses\<close>

lemma msgType_kind_field:
  "unat (ucast (drop_bit 29 (push_bit 1 f)) :: byte) = kind_field f"
proof -
  have "(ucast (drop_bit 29 (push_bit 1 f)) :: byte) = ucast (take_bit 3 (drop_bit 28 f))"
    by (rule bit_word_eqI)
      (simp only: bit_ucast_iff bit_drop_bit_eq bit_push_bit_iff bit_take_bit_iff comp_def
        possible_bit_word; auto dest: bit_imp_le_length)
  then have "unat (ucast (drop_bit 29 (push_bit 1 f)) :: byte)
      = take_bit 8 (take_bit 3 (unat (drop_bit 28 f)))"
    by (simp add: unsigned_ucast_eq unsigned_take_bit_eq)
  also have "\<dots> = kind_field f"
    by (simp add: kind_field_def unsigned_take_bit_eq)
  finally show ?thesis .
qed

lemma isValidResponse_kind:
  "isValidResponse f =
     (even (pop_count f) \<and>
      (kind_field f = MessageType_code READ_ACK \<or> kind_field f = MessageType_code WRITE_ACK))"
  unfolding isValidResponse_def Let_def msgType_kind_field parity_pop_count by simp

lemma getMessageType_kind: "getMessageType f = MessageType_of (kind_field f)"
proof -
  have "(7 :: ulong) = mask 3" by (simp add: mask_eq_exp_minus_1)
  then have "drop_bit 28 f AND 7 = take_bit 3 (drop_bit 28 f)"
    by (simp only: take_bit_eq_mask)
  then show ?thesis by (simp add: getMessageType_def kind_field_def)
qed

lemma kind_field_less: "kind_field f < 8"
proof -
  have "kind_field f = take_bit 3 (unat (drop_bit 28 f))"
    by (simp add: kind_field_def unsigned_take_bit_eq)
  also have "\<dots> < 2 ^ 3" by (rule take_bit_nat_less_exp)
  finally show ?thesis by simp
qed

lemma MessageType_of_code: "n < 8 \<Longrightarrow> MessageType_code (MessageType_of n) = n"
  by (auto simp: MessageType_of_def)

lemma MessageType_code_of: "MessageType_of (MessageType_code t) = t"
  by (cases t) (simp_all add: MessageType_of_def)

lemma getMessageType_eq_iff:
  "getMessageType f = t \<longleftrightarrow> kind_field f = MessageType_code t"
  using MessageType_of_code [OF kind_field_less, of f] MessageType_code_of [of t]
  by (auto simp: getMessageType_kind)

text \<open>
  Claim C4. For every 32-bit frame, \<^verbatim>\<open>isValidResponse\<close> is true exactly when the population
  count of its 32 bits is even and the message kind in bits 28 to 30 is READ_ACK or
  WRITE_ACK. So it is false for a valid acknowledgment whose parity bit (bit 31) has been
  flipped, and false for a frame of even parity whose kind is READ_DATA or WRITE_DATA.
\<close>

theorem isValidResponse_iff:
  "(isValidResponse f =
      (even (pop_count f) \<and> (getMessageType f = READ_ACK \<or> getMessageType f = WRITE_ACK)))
   \<and> (isValidResponse f \<longrightarrow> \<not> isValidResponse (f XOR 0x80000000))
   \<and> (even (pop_count f) \<and> (getMessageType f = READ_DATA \<or> getMessageType f = WRITE_DATA)
        \<longrightarrow> \<not> isValidResponse f)"
proof (intro conjI impI)
  show main: "isValidResponse f =
      (even (pop_count f) \<and> (getMessageType f = READ_ACK \<or> getMessageType f = WRITE_ACK))"
    by (simp only: isValidResponse_kind getMessageType_eq_iff)
  show "\<not> isValidResponse (f XOR 0x80000000)" if "isValidResponse f"
  proof -
    have "even (pop_count f)" using that by (simp add: isValidResponse_kind)
    then have "odd (pop_count (f XOR 0x80000000))"
      using pop_count_flip31 [of f] by simp
    then show ?thesis by (simp add: isValidResponse_kind)
  qed
  show "\<not> isValidResponse f"
    if "even (pop_count f) \<and> (getMessageType f = READ_DATA \<or> getMessageType f = WRITE_DATA)"
    using that by (auto simp: main)
qed

theorem isValidResponse_iff_witness:
  "isValidResponse 0xC0002A80 \<and> \<not> isValidResponse (0xC0002A80 XOR 0x80000000)
   \<and> even (pop_count 0x2A80) \<and> getMessageType 0x2A80 = READ_DATA \<and> \<not> isValidResponse 0x2A80
   \<and> even (pop_count 0x90002A80) \<and> getMessageType 0x90002A80 = WRITE_DATA
   \<and> \<not> isValidResponse 0x90002A80"
proof -
  have a: "isValidResponse 0xC0002A80"
    by (simp add: isValidResponse_def parity_def)
  have b: "even (pop_count 0x2A80) \<and> (getMessageType 0x2A80 = READ_DATA \<or> getMessageType 0x2A80 = WRITE_DATA)"
    by code_simp
  have c: "even (pop_count 0x90002A80) \<and> (getMessageType 0x90002A80 = READ_DATA \<or> getMessageType 0x90002A80 = WRITE_DATA)"
    by code_simp
  have d: "getMessageType 0x2A80 = READ_DATA" "getMessageType 0x90002A80 = WRITE_DATA"
    by (simp_all add: getMessageType_def MessageType_of_def)
  show ?thesis
    using a b c d isValidResponse_iff [of "0xC0002A80"] isValidResponse_iff [of "0x2A80"]
      isValidResponse_iff [of "0x90002A80"]
    by blast
qed

section \<open>Requests\<close>

lemma request_fields_bit31:
  assumes "data < 0x10000"
  shows "\<not> bit (request_fields type ident data) 31"
proof -
  have "data < 2 ^ 16" using assms by simp
  then have "\<not> bit data 31" using small_bits [of data 16 31] by auto
  then show ?thesis by (simp add: bit_request_fields)
qed

lemma buildRequest_clear31:
  assumes "data < 0x10000"
  shows "buildRequest type ident data AND 0x7FFFFFFF = request_fields type ident data"
proof (rule bit_word_eqI)
  fix n assume "n < LENGTH(32)"
  have m: "(0x7FFFFFFF :: ulong) = mask 31" by (simp add: mask_eq_exp_minus_1)
  show "bit (buildRequest type ident data AND 0x7FFFFFFF) n = bit (request_fields type ident data) n"
    unfolding m bit_and_iff bit_mask_iff bit_buildRequest
    using request_fields_bit31 [OF assms, of type ident] \<open>n < LENGTH(32)\<close>
    by (cases "n = 31") auto
qed

text \<open>
  Claim C5. For every message kind, every identifier and every 16-bit payload, the frame
  \<^verbatim>\<open>buildRequest\<close> returns has even parity over its 32 bits: \<^verbatim>\<open>parity\<close> is false on it, its
  population count is even, and its bit 31 is the odd parity of the other 31 bits.
\<close>

theorem buildRequest_parity:
  assumes "data < 0x10000"
  shows "\<not> parity (buildRequest type ident data)
    \<and> even (pop_count (buildRequest type ident data))
    \<and> bit (buildRequest type ident data) 31
        = odd (pop_count (buildRequest type ident data AND 0x7FFFFFFF))"
proof -
  let ?q = "request_fields type ident data"
  have q31: "\<not> bit ?q 31" using assms by (rule request_fields_bit31)
  have e: "even (pop_count (buildRequest type ident data))"
  proof (cases "parity ?q")
    case True
    then have o: "odd (pop_count ?q)" by (simp add: parity_pop_count)
    have "buildRequest type ident data = ?q OR push_bit 31 1"
      using True by (simp only: buildRequest_fields if_True)
    moreover have "pop_count (?q OR push_bit 31 1) = Suc (pop_count ?q)"
      using q31 by (rule pop_count_set31)
    ultimately have "pop_count (buildRequest type ident data) = Suc (pop_count ?q)"
      by (simp only:)
    then show ?thesis using o by simp
  next
    case False
    then show ?thesis by (simp add: buildRequest_fields parity_pop_count)
  qed
  have b: "bit (buildRequest type ident data) 31 = parity ?q"
    using q31 by (simp add: bit_buildRequest)
  show ?thesis
    using e b by (simp add: parity_pop_count buildRequest_clear31 [OF assms])
qed

text \<open>
  A write request for the set point 42.5 and a read request for the identifier 25.
\<close>

theorem buildRequest_parity_witness:
  "(0x2A80 :: ulong) < 0x10000 \<and> \<not> parity (buildRequest WRITE_DATA 1 0x2A80)
    \<and> buildRequest WRITE_DATA 1 0x2A80 = 0x10012A80
    \<and> buildRequest READ_DATA 25 0 = 0x80190000"
proof -
  have h: "(0x2A80 :: ulong) < 0x10000" by simp
  have "buildRequest WRITE_DATA 1 0x2A80 = 0x10012A80"
    by (simp add: buildRequest_def parity_def)
  moreover have "buildRequest READ_DATA 25 0 = 0x80190000"
    by (simp add: buildRequest_def parity_def)
  ultimately show ?thesis
    using h buildRequest_parity [OF h, of WRITE_DATA 1] by simp
qed

lemma buildRequest_payload:
  "(ucast (buildRequest type ident data) :: uint16) = ucast data"
  by (rule bit_word_eqI) (auto simp: bit_ucast_iff bit_buildRequest bit_request_fields)

lemma buildRequest_id:
  assumes "data < 0x10000"
  shows "(ucast (drop_bit 16 (buildRequest type ident data)) :: byte) = ident"
proof (rule bit_word_eqI)
  fix n assume n: "n < LENGTH(8)"
  have "data < 2 ^ 16" using assms by simp
  then have "\<not> bit data (16 + n)" using small_bits [of data 16 "16 + n"] by auto
  then show "bit (ucast (drop_bit 16 (buildRequest type ident data)) :: byte) n = bit ident n"
    using n by (auto simp: bit_ucast_iff bit_drop_bit_eq bit_buildRequest bit_request_fields)
qed

lemma buildRequest_spare:
  assumes "data < 0x10000"
  shows "take_bit 4 (drop_bit 24 (buildRequest type ident data)) = 0"
proof (rule bit_word_eqI)
  fix n assume n: "n < LENGTH(32)"
  have "data < 2 ^ 16" using assms by simp
  then have "\<not> bit data (24 + n)" using small_bits [of data 16 "24 + n"] by auto
  then show "bit (take_bit 4 (drop_bit 24 (buildRequest type ident data))) n = bit (0 :: ulong) n"
    by (auto simp: bit_take_bit_iff bit_drop_bit_eq bit_buildRequest bit_request_fields)
qed

lemma buildRequest_kind:
  assumes "data < 0x10000"
  shows "take_bit 3 (drop_bit 28 (buildRequest type ident data))
    = (if type = WRITE_DATA then 1 else 0)"
proof (rule bit_word_eqI)
  fix n assume n: "n < LENGTH(32)"
  have "data < 2 ^ 16" using assms by simp
  then have "\<not> bit data (28 + n)" using small_bits [of data 16 "28 + n"] by auto
  then show "bit (take_bit 3 (drop_bit 28 (buildRequest type ident data))) n
      = bit (if type = WRITE_DATA then 1 else 0 :: ulong) n"
    by (auto simp: bit_take_bit_iff bit_drop_bit_eq bit_buildRequest bit_request_fields bit_1_iff)
qed

lemma getMessageType_buildRequest:
  assumes "data < 0x10000"
  shows "getMessageType (buildRequest type ident data)
    = (if type = WRITE_DATA then WRITE_DATA else READ_DATA)"
  by (simp add: getMessageType_kind kind_field_def buildRequest_kind [OF assms] MessageType_of_def)

text \<open>
  Claim C6, amended. Bits 0 to 15 of the frame are the low 16 bits of the payload, for
  every payload. When the payload fits in 16 bits, bits 16 to 23 are the identifier and
  bits 24 to 27 are zero. There is no mask in \<^verbatim>\<open>buildRequest\<close>: the bits of a payload above
  bit 15, which an \<^verbatim>\<open>unsigned int\<close> of 32 bits can carry, go into the fields above it.
\<close>

theorem buildRequest_layout:
  "(ucast (buildRequest type ident data) :: uint16) = ucast data
   \<and> (data < 0x10000 \<longrightarrow>
        (ucast (drop_bit 16 (buildRequest type ident data)) :: byte) = ident
        \<and> take_bit 4 (drop_bit 24 (buildRequest type ident data)) = 0)"
  using buildRequest_payload buildRequest_id buildRequest_spare by blast

text \<open>
  The write request for the set point 42.5, with the identifier 1.
\<close>

theorem buildRequest_layout_witness:
  "(0x2A80 :: ulong) < 0x10000
   \<and> (ucast (drop_bit 16 (buildRequest WRITE_DATA 1 0x2A80)) :: byte) = 1
   \<and> take_bit 4 (drop_bit 24 (buildRequest WRITE_DATA 1 0x2A80)) = 0
   \<and> (ucast (buildRequest WRITE_DATA 1 0x2A80) :: uint16) = 0x2A80"
proof -
  have h: "(0x2A80 :: ulong) < 0x10000" by simp
  show ?thesis
    using h buildRequest_layout [of WRITE_DATA 1 "0x2A80"] by simp
qed

text \<open>
  Claim C6 as stated fails: with the identifier 0, the payload \<^verbatim>\<open>0x10000\<close> sets bit 16 of
  the frame, and the payload \<^verbatim>\<open>0x1000000\<close> sets bit 24.
\<close>

theorem buildRequest_truncation_counterexample:
  "(ucast (drop_bit 16 (buildRequest READ_DATA 0 0x10000)) :: byte) \<noteq> 0
   \<and> take_bit 4 (drop_bit 24 (buildRequest READ_DATA 0 0x1000000)) \<noteq> 0"
  by (simp add: buildRequest_def parity_def)

lemma getUInt_ucast: "getUInt w = ucast w"
proof -
  have m: "(0xffff :: ulong) = mask 16" by (simp add: mask_eq_exp_minus_1)
  have "(ucast (w AND mask 16) :: uint16) = ucast w"
    by (rule bit_word_eqI) (auto simp: bit_ucast_iff bit_and_iff bit_mask_iff)
  then show ?thesis unfolding getUInt_def m .
qed

lemma and_bit_test:
  fixes w :: ulong
  shows "(w AND 1 \<noteq> 0) = bit w 0" "(w AND 2 \<noteq> 0) = bit w 1" "(w AND 4 \<noteq> 0) = bit w 2"
  using bit_iff_and_push_bit_not_eq_0 [of w 0] bit_iff_and_push_bit_not_eq_0 [of w 1]
    bit_iff_and_push_bit_not_eq_0 [of w 2]
  by simp_all

lemma low_byte_bit:
  fixes resp :: ulong
  assumes "(ucast resp :: byte) = b" "n < 8"
  shows "bit resp n = bit b n"
proof -
  have "bit (ucast resp :: byte) n = bit b n" using assms(1) by simp
  then show ?thesis using assms(2) by (simp add: bit_ucast_iff)
qed

text \<open>
  Claim C3, amended. With only \<open>enableCentralHeating\<close> set, the request has the kind
  READ_DATA, the identifier \<open>Status\<close> and the payload \<^verbatim>\<open>0x0100\<close>: the flags are shifted into
  the high byte of the payload, and the low byte is zero. For a response whose low payload
  byte is binary 00000011, \<^verbatim>\<open>isCentralHeatingEnabled\<close> (bit 1) is true, \<^verbatim>\<open>isHotWaterEnabled\<close>
  (bit 2) is false and \<^verbatim>\<open>isFault\<close> (bit 0) is true.
\<close>

theorem buildSetBoilerStatusRequest_central_heating:
  "getMessageType (buildSetBoilerStatusRequest Status True False False False False) = READ_DATA
   \<and> (ucast (drop_bit 16 (buildSetBoilerStatusRequest Status True False False False False)) :: byte)
       = Status
   \<and> getUInt (buildSetBoilerStatusRequest Status True False False False False) = 0x0100
   \<and> ((ucast resp :: byte) = 0b00000011 \<longrightarrow>
        isCentralHeatingEnabled resp \<and> \<not> isHotWaterEnabled resp \<and> isFault resp)"
proof -
  have r: "buildSetBoilerStatusRequest Status True False False False False
      = buildRequest READ_DATA Status 0x100"
    by (simp add: buildSetBoilerStatusRequest_def)
  have d: "(0x100 :: ulong) < 0x10000" by simp
  have u: "getUInt w = ucast w" for w
    by (rule getUInt_ucast)
  have flags: "isCentralHeatingEnabled resp \<and> \<not> isHotWaterEnabled resp \<and> isFault resp"
    if "(ucast resp :: byte) = 0b00000011"
    using low_byte_bit [OF that, of 0] low_byte_bit [OF that, of 1] low_byte_bit [OF that, of 2]
    by (simp add: isCentralHeatingEnabled_def isHotWaterEnabled_def isFault_def and_bit_test)
  show ?thesis
    unfolding r u
    using getMessageType_buildRequest [OF d, of READ_DATA Status] buildRequest_id [OF d, of READ_DATA Status]
      buildRequest_payload [of READ_DATA Status "0x100"] flags
    by simp
qed

text \<open>
  The read acknowledgment \<^verbatim>\<open>0xC0000003\<close> is a valid response with the low byte 00000011.
\<close>

theorem buildSetBoilerStatusRequest_central_heating_witness:
  "(ucast (0xC0000003 :: ulong) :: byte) = 0b00000011
   \<and> isValidResponse 0xC0000003
   \<and> isCentralHeatingEnabled 0xC0000003 \<and> \<not> isHotWaterEnabled 0xC0000003 \<and> isFault 0xC0000003"
proof -
  have h: "(ucast (0xC0000003 :: ulong) :: byte) = 0b00000011" by simp
  have v: "isValidResponse 0xC0000003" by (simp add: isValidResponse_def parity_def)
  show ?thesis
    using h v buildSetBoilerStatusRequest_central_heating [of 0 "0xC0000003"] by simp
qed

text \<open>
  Claim C3 as stated fails: the low byte of the request is not 00000001, and the valid
  response \<^verbatim>\<open>0xC0000003\<close> with the low byte 00000011 does not report hot water.
\<close>

theorem buildSetBoilerStatusRequest_low_byte_counterexample:
  "(ucast (buildSetBoilerStatusRequest 0 True False False False False) :: byte) \<noteq> 0b00000001
   \<and> (ucast (0xC0000003 :: ulong) :: byte) = 0b00000011
   \<and> \<not> isHotWaterEnabled 0xC0000003"
  by (simp add: buildSetBoilerStatusRequest_def buildRequest_def parity_def isHotWaterEnabled_def)

section \<open>Sending\<close>

lemma sendBit_written: "sendBit high s = s\<lparr>written := written s @ bit_levels high\<rparr>"
  by (simp add: sendBit_def setActiveState_def setIdleState_def bit_levels_def)

lemma sendBits_written:
  "sendBits request n s = s\<lparr>written := written s @ frame_levels request n\<rparr>"
proof (induction n arbitrary: s)
  case 0
  show ?case by (simp add: frame_levels_def)
next
  case (Suc n)
  show ?case
    by (simp add: Suc.IH sendBit_written frame_levels_def)
qed

lemma sendRequestAync_ready:
  assumes "status s = READY"
  shows "sendRequestAync request now s =
    (True, s\<lparr>status := RESPONSE_WAITING, response := 0, responseStatus := NONE,
             responseTimestamp := now,
             written := written s @ bit_levels True @ frame_levels request 32
                        @ bit_levels True @ [HIGH]\<rparr>)"
  using assms
  by (simp add: sendRequestAync_def isReady_def Let_def sendBit_written sendBits_written
      setIdleState_def)

lemma beginOT_status: "status (beginOT callback s) = READY"
  by (simp add: beginOT_def)

text \<open>
  An edge changes nothing outside the three receiving states, in particular during a
  transmission, and the edge handler never invokes the completion callback.
\<close>

lemma handleInterrupt_elsewhere:
  assumes "status s \<noteq> RESPONSE_WAITING" and "status s \<noteq> RESPONSE_START_BIT"
    and "status s \<noteq> RESPONSE_RECEIVING"
  shows "handleInterrupt newTs line s = s"
  using assms by (simp add: handleInterrupt_def)

lemma handleInterrupt_notified: "notified (handleInterrupt newTs line s) = notified s"
  by (simp add: handleInterrupt_def)

lemma deliver_notified: "notified (deliver es s) = notified s"
  by (induction es arbitrary: s) (auto simp: handleInterrupt_notified)

text \<open>
  Claim C8. When the session is not READY, \<^verbatim>\<open>sendRequestAync\<close> returns false and leaves the
  whole object as it was, and \<^verbatim>\<open>sendRequest\<close> returns the zero frame without entering its
  loop, whatever would have happened during the loop.
\<close>

theorem sendRequestAync_rejected:
  assumes "status s \<noteq> READY"
  shows "sendRequestAync request now s = (False, s)
    \<and> sendRequest request now rs s = Some (0, s)"
  using assms by (simp add: sendRequest_def sendRequestAync_def isReady_def)

text \<open>
  A second request while the first one waits for its response.
\<close>

theorem sendRequestAync_rejected_witness:
  "status (snd (sendRequestAync 0x80190000 0 (beginOT True (OpenTherm_init 0)))) \<noteq> READY
   \<and> sendRequestAync 0x10012A80 40000
        (snd (sendRequestAync 0x80190000 0 (beginOT True (OpenTherm_init 0))))
      = (False, snd (sendRequestAync 0x80190000 0 (beginOT True (OpenTherm_init 0))))
   \<and> sendRequest 0x10012A80 40000 []
        (snd (sendRequestAync 0x80190000 0 (beginOT True (OpenTherm_init 0))))
      = Some (0, snd (sendRequestAync 0x80190000 0 (beginOT True (OpenTherm_init 0))))"
proof -
  have h: "status (snd (sendRequestAync 0x80190000 0 (beginOT True (OpenTherm_init 0)))) \<noteq> READY"
    by (simp add: sendRequestAync_ready beginOT_status)
  show ?thesis
    using h sendRequestAync_rejected [OF h, of "0x10012A80" 40000 "[]"] by simp
qed

section \<open>Temperature of an invalid response\<close>

text \<open>
  Claim C10. For every frame that is not a valid response, \<^verbatim>\<open>getTemperature\<close> is 0.
\<close>

theorem getTemperature_invalid:
  assumes "\<not> isValidResponse f"
  shows "getTemperature f = 0"
  using assms by (simp add: getTemperature_def)

text \<open>
  The frame \<^verbatim>\<open>0x2A80\<close> has the kind READ_DATA, so it is no valid response; its payload
  would decode to 42.5.
\<close>

theorem getTemperature_invalid_witness:
  "\<not> isValidResponse 0x2A80 \<and> getTemperature 0x2A80 = 0 \<and> getFloat 0x2A80 = 42.5"
proof -
  have h: "\<not> isValidResponse 0x2A80"
    by (simp add: isValidResponse_def parity_def)
  have "getFloat 0x2A80 = 42.5"
    by (simp add: getFloat_def getUInt_def)
  then show ?thesis
    using h getTemperature_invalid [OF h] by simp
qed

section \<open>The reference exchange, state by state\<close>

lemma exchange_started_eq:
  "exchange_started =
     \<lparr>status = RESPONSE_WAITING, response = 0, responseStatus = NONE, responseTimestamp = 0,
      responseBitIndex = 0, processResponseCallback = True, notified = [],
      written = [HIGH] @ bit_levels True @ frame_levels 0x80190000 32 @ bit_levels True @ [HIGH]\<rparr>"
  by (simp add: exchange_started_def sendRequestAync_ready beginOT_status)
    (simp add: beginOT_def activateBoiler_def setIdleState_def OpenTherm_init_def)

lemma receiving_started_fields:
  "status receiving_started = RESPONSE_RECEIVING"
  "responseTimestamp receiving_started = 600"
  "responseBitIndex receiving_started = 0"
  "response receiving_started = 0"
  "responseStatus receiving_started = NONE"
  "processResponseCallback receiving_started"
  "notified receiving_started = []"
  by (simp_all add: receiving_started_def exchange_started_eq handleInterrupt_def isReady_def)

lemma frame_received_fields:
  "status frame_received = RESPONSE_RECEIVING"
  "responseTimestamp frame_received = 32600"
  "responseBitIndex frame_received = 32"
  "response frame_received = 0xC0002A80"
  "processResponseCallback frame_received"
  "notified frame_received = []"
  by code_simp+

lemma frame_ready_fields:
  "status frame_ready = RESPONSE_READY"
  "responseTimestamp frame_ready = 33600"
  "response frame_ready = 0xC0002A80"
  "processResponseCallback frame_ready"
  "notified frame_ready = []"
  by (simp_all add: frame_ready_def handleInterrupt_def isReady_def frame_received_fields)

section \<open>Receiving\<close>

text \<open>
  Claim C7. In the state RESPONSE_RECEIVING an edge that comes no more than 750
  microseconds after the recorded timestamp changes nothing. A later one, while the bit
  counter is below 32, shifts the response left by one bit, ORs in 1 when the line is
  \<open>LOW\<close> and 0 when it is \<open>HIGH\<close>, increments the counter and records the timestamp;
  once the counter is no longer below 32, it only sets the state RESPONSE_READY and
  records the timestamp, whatever the level of the line.
\<close>

theorem handleInterrupt_receiving:
  assumes "status s = RESPONSE_RECEIVING"
  shows "(\<not> newTs - responseTimestamp s > 750 \<longrightarrow> handleInterrupt newTs line s = s)
    \<and> (newTs - responseTimestamp s > 750 \<and> responseBitIndex s < 32 \<longrightarrow>
         handleInterrupt newTs line s =
           s\<lparr>response := push_bit 1 (response s) OR (if line = LOW then 1 else 0),
             responseTimestamp := newTs,
             responseBitIndex := responseBitIndex s + 1\<rparr>)
    \<and> (newTs - responseTimestamp s > 750 \<and> \<not> responseBitIndex s < 32 \<longrightarrow>
         handleInterrupt newTs line s = s\<lparr>status := RESPONSE_READY, responseTimestamp := newTs\<rparr>)"
  using assms by (simp add: handleInterrupt_def isReady_def)

text \<open>
  The three cases in the reference exchange: an early edge, the first bit, and the stop
  bit at either level after the 32 bits.
\<close>

theorem handleInterrupt_receiving_witness:
  "status receiving_started = RESPONSE_RECEIVING
   \<and> \<not> 1000 - responseTimestamp receiving_started > 750
   \<and> handleInterrupt 1000 LOW receiving_started = receiving_started
   \<and> 1600 - responseTimestamp receiving_started > 750
   \<and> responseBitIndex receiving_started < 32
   \<and> response (handleInterrupt 1600 LOW receiving_started) = 1
   \<and> responseBitIndex (handleInterrupt 1600 LOW receiving_started) = 1
   \<and> responseTimestamp (handleInterrupt 1600 LOW receiving_started) = 1600
   \<and> status frame_received = RESPONSE_RECEIVING
   \<and> 33600 - responseTimestamp frame_received > 750
   \<and> \<not> responseBitIndex frame_received < 32
   \<and> status (handleInterrupt 33600 LOW frame_received) = RESPONSE_READY
   \<and> status (handleInterrupt 33600 HIGH frame_received) = RESPONSE_READY
   \<and> response (handleInterrupt 33600 HIGH frame_received) = 0xC0002A80"
  using handleInterrupt_receiving [of receiving_started 1000 LOW]
    handleInterrupt_receiving [of receiving_started 1600 LOW]
    handleInterrupt_receiving [of frame_received 33600 LOW]
    handleInterrupt_receiving [of frame_received 33600 HIGH]
  by (simp add: receiving_started_fields frame_received_fields)

section \<open>Polling\<close>

text \<open>
  Claim C2, amended. In every state other than READY and NOT_INITIALIZED, the quiet
  period DELAY left aside, a call of \<^verbatim>\<open>process\<close> more than 800000 microseconds after the
  recorded timestamp sets the outcome TIMEOUT, invokes the completion callback, when one
  is registered, with the response as it stands and TIMEOUT, and sets the state READY.
  Nothing else changes. The difference of the two clock values is taken modulo \<open>2 ^ 32\<close>.
  In the state NOT_INITIALIZED a call of \<^verbatim>\<open>process\<close> changes nothing, whatever the clock
  value.
\<close>

theorem process_timeout:
  "(status s \<noteq> READY \<and> status s \<noteq> NOT_INITIALIZED \<and> status s \<noteq> DELAY
      \<and> newTs - responseTimestamp s > 800000 \<longrightarrow>
      process newTs s =
        s\<lparr>status := READY, responseStatus := TIMEOUT,
          notified := notified s
            @ (if processResponseCallback s then [(response s, TIMEOUT)] else [])\<rparr>)
   \<and> (status s = NOT_INITIALIZED \<longrightarrow> process newTs s = s)"
  by (simp add: process_def callProcessResponseCallback_def Let_def)

text \<open>
  No edge arrives after the request: the call at 800001 microseconds reports the timeout.
  On an object that was constructed and never started, a call at 900000 microseconds
  changes nothing.
\<close>

theorem process_timeout_witness:
  "status exchange_started \<noteq> READY \<and> status exchange_started \<noteq> NOT_INITIALIZED
   \<and> status exchange_started \<noteq> DELAY
   \<and> 800001 - responseTimestamp exchange_started > 800000
   \<and> status (process 800001 exchange_started) = READY
   \<and> responseStatus (process 800001 exchange_started) = TIMEOUT
   \<and> notified (process 800001 exchange_started) = [(0, TIMEOUT)]
   \<and> status (OpenTherm_init 0) = NOT_INITIALIZED
   \<and> process 900000 (OpenTherm_init 0) = OpenTherm_init 0"
proof -
  have h: "status exchange_started \<noteq> READY \<and> status exchange_started \<noteq> NOT_INITIALIZED
      \<and> status exchange_started \<noteq> DELAY
      \<and> 800001 - responseTimestamp exchange_started > 800000"
    by (simp add: exchange_started_eq)
  have i: "status (OpenTherm_init 0) = NOT_INITIALIZED"
    by (simp add: OpenTherm_init_def)
  show ?thesis
    using h i process_timeout [of exchange_started 800001]
      process_timeout [of "OpenTherm_init 0" 900000]
    by (simp add: exchange_started_eq)
qed

text \<open>
  Claim C2 as stated fails in the state NOT_INITIALIZED, which is not READY: there
  \<^verbatim>\<open>process\<close> sets neither the outcome TIMEOUT nor the state READY, however late it is called.
\<close>

theorem process_timeout_counterexample:
  "status (OpenTherm_init 0) \<noteq> READY
   \<and> 900000 - responseTimestamp (OpenTherm_init 0) > 800000
   \<and> status (process 900000 (OpenTherm_init 0)) \<noteq> READY
   \<and> responseStatus (process 900000 (OpenTherm_init 0)) \<noteq> TIMEOUT"
  by (simp add: OpenTherm_init_def process_def)

text \<open>
  Claim C9, amended. From RESPONSE_INVALID and from RESPONSE_READY, a call of \<^verbatim>\<open>process\<close>
  no more than 800000 microseconds after the recorded timestamp sets the state DELAY (a
  later call is a timeout and sets READY). From DELAY, \<^verbatim>\<open>process\<close> sets READY exactly when
  more than 100000 microseconds have passed since the recorded timestamp and changes
  nothing before; an edge changes nothing in DELAY and a request is rejected there, so
  nothing else leaves the quiet period.
\<close>

theorem process_quiet_period:
  "((status s = RESPONSE_INVALID \<or> status s = RESPONSE_READY)
      \<and> \<not> newTs - responseTimestamp s > 800000
      \<longrightarrow> status (process newTs s) = DELAY)
   \<and> (status s = DELAY \<longrightarrow>
        (status (process newTs s) = READY) = (newTs - responseTimestamp s > 100000)
        \<and> (\<not> newTs - responseTimestamp s > 100000 \<longrightarrow> process newTs s = s)
        \<and> handleInterrupt newTs line s = s
        \<and> sendRequestAync request newTs s = (False, s))"
proof -
  have "100000 < d" if "800000 < d" for d :: ulong
    using that less_trans [of "100000 :: ulong" 800000 d] by simp
  then show ?thesis
    by (auto simp: process_def callProcessResponseCallback_def Let_def handleInterrupt_def
        isReady_def sendRequestAync_def)
qed

text \<open>
  The reference exchange: the complete frame is reported at 34000 microseconds, the quiet
  period still holds 100000 microseconds after the stop bit and ends one microsecond later.
\<close>

theorem process_quiet_period_witness:
  "status frame_ready = RESPONSE_READY
   \<and> \<not> 34000 - responseTimestamp frame_ready > 800000
   \<and> status (process 34000 frame_ready) = DELAY
   \<and> responseStatus (process 34000 frame_ready) = SUCCESS
   \<and> \<not> 133600 - responseTimestamp (process 34000 frame_ready) > 100000
   \<and> process 133600 (process 34000 frame_ready) = process 34000 frame_ready
   \<and> 133601 - responseTimestamp (process 34000 frame_ready) > 100000
   \<and> status (process 133601 (process 34000 frame_ready)) = READY"
proof -
  have a: "status (process 34000 frame_ready) = DELAY"
    "responseTimestamp (process 34000 frame_ready) = 33600"
    "responseStatus (process 34000 frame_ready) = SUCCESS"
    by (simp_all add: process_def callProcessResponseCallback_def Let_def frame_ready_fields
        isValidResponse_def parity_def)
  show ?thesis
    using process_quiet_period [of frame_ready 34000]
      process_quiet_period [of "process 34000 frame_ready" 133600]
      process_quiet_period [of "process 34000 frame_ready" 133601]
    by (simp add: a frame_ready_fields)
qed

text \<open>
  Claim C9 as stated fails: when \<^verbatim>\<open>process\<close> first runs more than 800000 microseconds after
  the stop bit, or after the edge that made the frame invalid, the state becomes READY
  with no quiet period.
\<close>

theorem process_quiet_period_counterexample:
  "status frame_ready = RESPONSE_READY
   \<and> status (process 900000 frame_ready) \<noteq> DELAY
   \<and> status (process 900000 frame_ready) = READY
   \<and> status (handleInterrupt 100 LOW exchange_started) = RESPONSE_INVALID
   \<and> status (process 900000 (handleInterrupt 100 LOW exchange_started)) \<noteq> DELAY"
  by (simp add: process_def callProcessResponseCallback_def Let_def frame_ready_fields
      handleInterrupt_def isReady_def exchange_started_eq)

text \<open>
  In the quiet period \<^verbatim>\<open>process\<close> invokes the completion callback exactly when it is called
  more than 800000 microseconds after the recorded timestamp.
\<close>

lemma process_delay_notified:
  assumes "status s = DELAY"
  shows "notified (process newTs s) =
    notified s @ (if newTs - responseTimestamp s > 800000 \<and> processResponseCallback s
                  then [(response s, TIMEOUT)] else [])"
  using assms by (simp add: process_def callProcessResponseCallback_def Let_def)

text \<open>
  Claim C1 does not hold of the code. In the reference exchange the complete frame is
  reported by the call of \<^verbatim>\<open>process\<close> at 34000 microseconds, which starts the quiet period.
  When the next call comes at 900000 microseconds, the timeout test, which excludes
  NOT_INITIALIZED but not DELAY, fires in the quiet period: the completion callback is
  invoked a second time for the same exchange, with TIMEOUT, and the recorded outcome
  SUCCESS is overwritten.
\<close>

theorem process_notifies_twice:
  "status (process 34000 frame_ready) = DELAY
   \<and> notified (process 34000 frame_ready) = [(0xC0002A80, SUCCESS)]
   \<and> status (process 900000 (process 34000 frame_ready)) = READY
   \<and> notified (process 900000 (process 34000 frame_ready))
       = [(0xC0002A80, SUCCESS), (0xC0002A80, TIMEOUT)]
   \<and> responseStatus (process 900000 (process 34000 frame_ready)) = TIMEOUT"
  by (simp add: process_def callProcessResponseCallback_def Let_def frame_ready_fields
      isValidResponse_def parity_def)

end
